theory Spec2Isabelle
  imports Complex_Main
begin

section \<open>The quaternion value type of src/classes/quaternion.ts\<close>

text \<open>
  The embedding follows the current version of the class \<open>Quaternion\<close> (the one with
  \<open>Add\<close>, \<open>Subtract\<close>, \<open>Divide\<close> and the trigonometric \<open>DoSlerp\<close>).

  A TypeScript \<open>number\<close> is modelled by a \<^typ>\<open>real\<close>: arithmetic is exact, and the
  values NaN and Infinity do not exist. Where the source can produce one of them from
  finite operands (a division by zero, \<open>Math.acos\<close> outside [-1, 1]) the model returns
  \<open>None\<close>, so that such a step is a visible branch. An optional parameter
  (\<open>x?: number\<close>) is a \<^typ>\<open>real option\<close>, \<open>None\<close> standing for \<open>undefined\<close>.
\<close>

record quaternion =
  x :: real
  y :: real
  z :: real
  w :: real

subsection \<open>Construction\<close>

text \<open>
  The field initialisers give \<open>(0, 0, 0, 1)\<close>; then each \<open>if (p) this.p = p;\<close> stores
  a parameter that is truthy. A number is truthy when it is not zero (and not NaN), and
  \<open>undefined\<close> is falsy.
\<close>

definition truthy :: "real option \<Rightarrow> bool" where
  "truthy p = (case p of None \<Rightarrow> False | Some v \<Rightarrow> v \<noteq> 0)"

definition field_defaults :: quaternion where
  "field_defaults = \<lparr>x = 0, y = 0, z = 0, w = 1\<rparr>"

definition Quaternion_constructor ::
    "real option \<Rightarrow> real option \<Rightarrow> real option \<Rightarrow> real option \<Rightarrow> quaternion" where
  "Quaternion_constructor px py pz pw =
     (let this = field_defaults;
          this = (if truthy px then this\<lparr>x := the px\<rparr> else this);
          this = (if truthy py then this\<lparr>y := the py\<rparr> else this);
          this = (if truthy pz then this\<lparr>z := the pz\<rparr> else this);
          this = (if truthy pw then this\<lparr>w := the pw\<rparr> else this)
      in this)"

text \<open>\<open>new Quaternion(a, b, c, d)\<close> with all four arguments given, as every call in the class is.\<close>

definition new_Quaternion :: "real \<Rightarrow> real \<Rightarrow> real \<Rightarrow> real \<Rightarrow> quaternion" where
  "new_Quaternion a b c d = Quaternion_constructor (Some a) (Some b) (Some c) (Some d)"

definition identity :: quaternion where
  "identity = new_Quaternion 0 0 0 1"

subsection \<open>Derived properties\<close>

definition Dot :: "quaternion \<Rightarrow> quaternion \<Rightarrow> real" where
  "Dot lhs rhs = x lhs * x rhs + y lhs * y rhs + z lhs * z rhs + w lhs * w rhs"

definition magnitude :: "quaternion \<Rightarrow> real" where
  "magnitude q = sqrt (Dot q q)"

definition sqrMagnitude :: "quaternion \<Rightarrow> real" where
  "sqrMagnitude q = sqrt (magnitude q)"

definition normalized :: "quaternion \<Rightarrow> quaternion" where
  "normalized q =
     (let mag = magnitude q in
      if mag > 0 then new_Quaternion (x q / mag) (y q / mag) (z q / mag) (w q / mag)
      else identity)"

definition conjugate :: "quaternion \<Rightarrow> quaternion" where
  "conjugate q = new_Quaternion (- x q) (- y q) (- z q) (w q)"

text \<open>
  \<open>inverse\<close> divides by \<open>this.magnitude ** 2\<close> without a guard. On the quaternion of
  magnitude zero the source divides by zero and the divisions give NaN and Infinity:
  \<open>None\<close> here.
\<close>

definition inverse_q :: "quaternion \<Rightarrow> quaternion option" where
  "inverse_q q =
     (let conj = conjugate q;
          mag2 = (magnitude q) ^ 2
      in if mag2 = 0 then None
         else Some (new_Quaternion (x conj / mag2) (y conj / mag2) (z conj / mag2) (w conj / mag2)))"

subsection \<open>Static algebra\<close>

definition Add :: "quaternion \<Rightarrow> quaternion \<Rightarrow> quaternion" where
  "Add lhs rhs = new_Quaternion (x lhs + x rhs) (y lhs + y rhs) (z lhs + z rhs) (w lhs + w rhs)"

definition Subtract :: "quaternion \<Rightarrow> quaternion \<Rightarrow> quaternion" where
  "Subtract lhs rhs = new_Quaternion (x lhs - x rhs) (y lhs - y rhs) (z lhs - z rhs) (w lhs - w rhs)"

definition Multiply :: "quaternion \<Rightarrow> quaternion \<Rightarrow> quaternion" where
  "Multiply lhs rhs = new_Quaternion
     (w lhs * x rhs + x lhs * w rhs + y lhs * z rhs - z lhs * y rhs)
     (w lhs * y rhs + y lhs * w rhs + z lhs * x rhs - x lhs * z rhs)
     (w lhs * z rhs + z lhs * w rhs + x lhs * y rhs - y lhs * x rhs)
     (w lhs * w rhs - x lhs * x rhs - y lhs * y rhs - z lhs * z rhs)"

definition Divide :: "quaternion \<Rightarrow> quaternion \<Rightarrow> quaternion option" where
  "Divide lhs rhs =
     (case inverse_q rhs of
        None \<Rightarrow> None
      | Some inverseRhs \<Rightarrow> Some (Multiply lhs inverseRhs))"

subsection \<open>Mutating instance operations\<close>

text \<open>
  The receiver \<open>this\<close> is the state: each method takes its value before the call and
  returns its value after it. The assignments run in the source's order, each reading
  the fields as the earlier ones left them. The argument \<open>other\<close> is an object distinct
  from the receiver, so it does not change during the call.
\<close>

definition Add_method :: "quaternion \<Rightarrow> quaternion \<Rightarrow> quaternion" where
  "Add_method this other =
     (let this = this\<lparr>x := x this + x other\<rparr>;
          this = this\<lparr>y := y this + y other\<rparr>;
          this = this\<lparr>z := z this + z other\<rparr>;
          this = this\<lparr>w := w this + w other\<rparr>
      in this)"

definition Subtract_method :: "quaternion \<Rightarrow> quaternion \<Rightarrow> quaternion" where
  "Subtract_method this other =
     (let this = this\<lparr>x := x this - x other\<rparr>;
          this = this\<lparr>y := y this - y other\<rparr>;
          this = this\<lparr>z := z this - z other\<rparr>;
          this = this\<lparr>w := w this - w other\<rparr>
      in this)"

definition Multiply_method :: "quaternion \<Rightarrow> quaternion \<Rightarrow> quaternion" where
  "Multiply_method this other =
     (let this = this\<lparr>x := w this * x other + x this * w other + y this * z other - z this * y other\<rparr>;
          this = this\<lparr>y := w this * y other + y this * w other + z this * x other - x this * z other\<rparr>;
          this = this\<lparr>z := w this * z other + z this * w other + x this * y other - y this * x other\<rparr>;
          this = this\<lparr>w := w this * w other - x this * x other - y this * y other - z this * z other\<rparr>
      in this)"

definition Divide_method :: "quaternion \<Rightarrow> quaternion \<Rightarrow> quaternion option" where
  "Divide_method this other =
     (case inverse_q other of
        None \<Rightarrow> None
      | Some inverseOther \<Rightarrow> Some (Multiply_method this inverseOther))"

subsection \<open>Interpolation\<close>

definition DOT_THRESHOLD :: real where
  "DOT_THRESHOLD = 0.9995"

text \<open>\<open>Math.acos\<close> is NaN outside [-1, 1].\<close>

definition Math_acos :: "real \<Rightarrow> real option" where
  "Math_acos v = (if - 1 \<le> v \<and> v \<le> 1 then Some (arccos v) else None)"

definition DoSlerp :: "quaternion \<Rightarrow> quaternion \<Rightarrow> real \<Rightarrow> quaternion option" where
  "DoSlerp from to t =
     (let dot = Dot from to;
          (to, dot) = (if dot < 0
                       then (new_Quaternion (- x to) (- y to) (- z to) (- w to), - dot)
                       else (to, dot))
      in if dot > DOT_THRESHOLD then
           (let result = new_Quaternion
                  (x from + t * (x to - x from))
                  (y from + t * (y to - y from))
                  (z from + t * (z to - z from))
                  (w from + t * (w to - w from))
            in Some (normalized result))
         else
           (case Math_acos dot of
              None \<Rightarrow> None
            | Some theta_0 \<Rightarrow>
               (let theta = theta_0 * t;
                    to_orthogonal = normalized (new_Quaternion
                      (x to - x from * dot)
                      (y to - y from * dot)
                      (z to - z from * dot)
                      (w to - w from * dot))
                in Some (new_Quaternion
                     (x from * cos theta + x to_orthogonal * sin theta)
                     (y from * cos theta + y to_orthogonal * sin theta)
                     (z from * cos theta + z to_orthogonal * sin theta)
                     (w from * cos theta + w to_orthogonal * sin theta)))))"

definition Slerp :: "quaternion \<Rightarrow> quaternion \<Rightarrow> real \<Rightarrow> quaternion option" where
  "Slerp from to t =
     (if t < 0 then Some from
      else if t > 1 then Some to
      else DoSlerp from to t)"

definition SlerpUnclamped :: "quaternion \<Rightarrow> quaternion \<Rightarrow> real \<Rightarrow> quaternion option" where
  "SlerpUnclamped from to t = DoSlerp from to t"

subsection \<open>The interpolation algorithm in the specification's words\<close>

text \<open>
  The specification gives \<open>DoSlerp\<close> as four steps on 4-vectors: the dot product; the
  change of sign of \<open>to\<close> and of the dot product when it is negative; above 0.9995 the
  normalised linear interpolation \<open>normalize(from + t*(to-from))\<close>; otherwise
  \<open>from*cos(theta) + normalize(to - from*dot)*sin(theta)\<close> with
  \<open>theta = acos(dot)*t\<close>. Its \<open>normalize\<close> is \<open>q / magnitude\<close> component-wise when the
  magnitude is positive and the identity otherwise. These two definitions follow those
  words, with plain component-wise arithmetic; they are what \<open>DoSlerp\<close> above, taken
  from the code, is compared with.
\<close>

definition normalized_spec :: "quaternion \<Rightarrow> quaternion" where
  "normalized_spec q =
     (if magnitude q > 0
      then \<lparr>x = x q / magnitude q, y = y q / magnitude q,
            z = z q / magnitude q, w = w q / magnitude q\<rparr>
      else \<lparr>x = 0, y = 0, z = 0, w = 1\<rparr>)"

definition DoSlerp_spec :: "quaternion \<Rightarrow> quaternion \<Rightarrow> real \<Rightarrow> quaternion" where
  "DoSlerp_spec from to t =
     (let dot = Dot from to;
          (to, dot) = (if dot < 0
                       then (\<lparr>x = - x to, y = - y to, z = - z to, w = - w to\<rparr>, - dot)
                       else (to, dot))
      in if dot > 0.9995 then
           normalized_spec \<lparr>x = x from + t * (x to - x from), y = y from + t * (y to - y from),
                             z = z from + t * (z to - z from), w = w from + t * (w to - w from)\<rparr>
         else
           (let theta0 = arccos dot;
                theta = theta0 * t;
                to_orthogonal = normalized_spec
                  \<lparr>x = x to - x from * dot, y = y to - y from * dot,
                   z = z to - z from * dot, w = w to - w from * dot\<rparr>
            in \<lparr>x = x from * cos theta + x to_orthogonal * sin theta,
                y = y from * cos theta + y to_orthogonal * sin theta,
                z = z from * cos theta + z to_orthogonal * sin theta,
                w = w from * cos theta + w to_orthogonal * sin theta\<rparr>))"

section \<open>Basic facts\<close>

lemma new_Quaternion_fields:
  "new_Quaternion a b c d = \<lparr>x = a, y = b, z = c, w = (if d = 0 then 1 else d)\<rparr>"
  by (simp add: new_Quaternion_def Quaternion_constructor_def truthy_def field_defaults_def Let_def)

lemma Dot_self_nonneg: "0 \<le> Dot q q"
  by (simp add: Dot_def)

lemma magnitude_sq: "(magnitude q)\<^sup>2 = Dot q q"
  by (simp add: magnitude_def Dot_self_nonneg)

lemma magnitude_unit_iff: "magnitude q = 1 \<longleftrightarrow> Dot q q = 1"
  by (simp add: magnitude_def)

lemma Dot_self_pos_w: "w q \<noteq> 0 \<Longrightarrow> 0 < Dot q q"
proof -
  assume "w q \<noteq> 0"
  then have "0 < (w q)\<^sup>2" by simp
  then have "0 < w q * w q" by (simp add: power2_eq_square)
  moreover have "0 \<le> x q * x q + y q * y q + z q * z q" by simp
  ultimately show ?thesis unfolding Dot_def by linarith
qed

text \<open>When the last component is not zero, \<open>normalized\<close> is the plain division.\<close>

lemma normalized_fields:
  assumes "0 < magnitude q" and "w q \<noteq> 0"
  shows "normalized q = \<lparr>x = x q / magnitude q, y = y q / magnitude q,
                           z = z q / magnitude q, w = w q / magnitude q\<rparr>"
  using assms by (simp add: normalized_def new_Quaternion_fields Let_def)

lemma normalized_unit: "magnitude q = 1 \<Longrightarrow> w q \<noteq> 0 \<Longrightarrow> normalized q = q"
  by (simp add: normalized_fields)

section \<open>The constructor\<close>

text \<open>
  Claim C4. The constructor treats an argument that is the number zero as an absent
  one: in each position, passing 0 gives the same object as passing nothing, and the
  field keeps its default (0 for \<open>x\<close>, \<open>y\<close>, \<open>z\<close> and 1 for \<open>w\<close>). In particular
  \<open>new Quaternion(0, 1, 0, 0)\<close> has \<open>w = 1\<close>.
\<close>

theorem constructor_zero_is_absent:
  "Quaternion_constructor (Some 0) py pz pw = Quaternion_constructor None py pz pw
   \<and> Quaternion_constructor px (Some 0) pz pw = Quaternion_constructor px None pz pw
   \<and> Quaternion_constructor px py (Some 0) pw = Quaternion_constructor px py None pw
   \<and> Quaternion_constructor px py pz (Some 0) = Quaternion_constructor px py pz None
   \<and> x (Quaternion_constructor None py pz pw) = 0
   \<and> y (Quaternion_constructor px None pz pw) = 0
   \<and> z (Quaternion_constructor px py None pw) = 0
   \<and> w (Quaternion_constructor px py pz None) = 1
   \<and> w (new_Quaternion 0 1 0 0) = 1"
  by (simp add: new_Quaternion_def Quaternion_constructor_def truthy_def field_defaults_def Let_def)

section \<open>Magnitudes\<close>

text \<open>
  Claim C9. \<open>sqrMagnitude\<close> is the square root of the magnitude, that is the fourth
  root of \<open>x\<^sup>2 + y\<^sup>2 + z\<^sup>2 + w\<^sup>2\<close>, and not the squared magnitude \<open>Dot q q\<close>: on
  \<open>(0, 0, 0, 2)\<close> the two differ.
\<close>

theorem sqrMagnitude_is_fourth_root:
  "sqrMagnitude q = sqrt (magnitude q)
   \<and> sqrMagnitude q = root 4 ((x q)\<^sup>2 + (y q)\<^sup>2 + (z q)\<^sup>2 + (w q)\<^sup>2)
   \<and> sqrMagnitude \<lparr>x = 0, y = 0, z = 0, w = 2\<rparr>
       \<noteq> Dot \<lparr>x = 0, y = 0, z = 0, w = 2\<rparr> \<lparr>x = 0, y = 0, z = 0, w = 2\<rparr>"
proof (intro conjI)
  show "sqrMagnitude q = sqrt (magnitude q)"
    by (simp add: sqrMagnitude_def)
  have "root (2 * 2) (Dot q q) = root 2 (root 2 (Dot q q))"
    by (rule real_root_mult_exp)
  then show "sqrMagnitude q = root 4 ((x q)\<^sup>2 + (y q)\<^sup>2 + (z q)\<^sup>2 + (w q)\<^sup>2)"
    by (simp add: sqrMagnitude_def magnitude_def sqrt_def Dot_def power2_eq_square)
  have "sqrt 2 \<noteq> 4"
  proof
    assume "sqrt 2 = 4"
    then have "(sqrt 2)\<^sup>2 = 4\<^sup>2" by simp
    then show False by simp
  qed
  then show "sqrMagnitude \<lparr>x = 0, y = 0, z = 0, w = 2\<rparr>
      \<noteq> Dot \<lparr>x = 0, y = 0, z = 0, w = 2\<rparr> \<lparr>x = 0, y = 0, z = 0, w = 2\<rparr>"
    by (simp add: sqrMagnitude_def magnitude_def Dot_def)
qed

text \<open>
  Claim C10. A quaternion of positive magnitude whose \<open>w\<close> is not zero has a
  \<open>normalized\<close> of magnitude exactly 1. The condition on \<open>w\<close> cannot be dropped: for
  \<open>(1, 0, 0, 0)\<close> the computed \<open>w\<close> is 0, the constructor puts its default 1 there, and
  the result does not have magnitude 1.
\<close>

theorem normalized_magnitude_one:
  "(0 < magnitude q \<and> w q \<noteq> 0 \<longrightarrow> magnitude (normalized q) = 1)
   \<and> magnitude (normalized \<lparr>x = 1, y = 0, z = 0, w = 0\<rparr>) \<noteq> 1"
proof (intro conjI impI)
  assume a: "0 < magnitude q \<and> w q \<noteq> 0"
  define m where "m = magnitude q"
  from a have m: "0 < m" "w q \<noteq> 0" by (simp_all add: m_def)
  have n: "normalized q = \<lparr>x = x q / m, y = y q / m, z = z q / m, w = w q / m\<rparr>"
    using a by (simp add: normalized_fields m_def)
  have "Dot (normalized q) (normalized q) = Dot q q / m\<^sup>2"
    by (simp add: n Dot_def power2_eq_square add_divide_distrib)
  also have "\<dots> = 1"
    using Dot_self_pos_w [OF m(2)] by (simp add: m_def magnitude_sq)
  finally show "magnitude (normalized q) = 1"
    by (simp add: magnitude_unit_iff)
next
  show "magnitude (normalized \<lparr>x = 1, y = 0, z = 0, w = 0\<rparr>) \<noteq> 1"
    by (simp add: normalized_def magnitude_def Dot_def new_Quaternion_fields)
qed

theorem normalized_magnitude_one_witness:
  "0 < magnitude \<lparr>x = 3, y = 0, z = 0, w = 4\<rparr>
   \<and> w \<lparr>x = 3, y = 0, z = 0, w = 4\<rparr> \<noteq> 0
   \<and> magnitude (normalized \<lparr>x = 3, y = 0, z = 0, w = 4\<rparr>) = 1"
proof -
  have "sqrt 25 = 5"
    by (rule real_sqrt_unique) simp_all
  then have "0 < magnitude \<lparr>x = 3, y = 0, z = 0, w = 4\<rparr>"
    by (simp add: magnitude_def Dot_def)
  then show ?thesis
    using normalized_magnitude_one [of "\<lparr>x = 3, y = 0, z = 0, w = 4\<rparr>"] by simp
qed

section \<open>Interpolation returns on every input\<close>

text \<open>
  Claim C8. \<open>DoSlerp\<close>, \<open>Slerp\<close> and \<open>SlerpUnclamped\<close> are loop-free and give a
  quaternion for every \<open>from\<close>, \<open>to\<close> and every \<open>t\<close>, whatever its sign or size: the
  only partial step, \<open>Math.acos\<close>, is reached with an argument between 0 and 0.9995,
  and \<open>normalized\<close> divides by a positive magnitude only.
\<close>

theorem slerp_total:
  "(\<exists>q. DoSlerp from to t = Some q)
   \<and> (\<exists>q. Slerp from to t = Some q)
   \<and> (\<exists>q. SlerpUnclamped from to t = Some q)"
proof -
  have D: "\<exists>q. DoSlerp a b s = Some q" for a b s
    by (simp add: DoSlerp_def Math_acos_def DOT_THRESHOLD_def Let_def)
  show ?thesis
    using D by (simp add: Slerp_def SlerpUnclamped_def)
qed

section \<open>Where the constructor's zero test reaches the algebra\<close>

text \<open>
  Every operation below builds its result with \<open>new Quaternion\<close>, so a last component
  that is computed as 0 comes back as 1. Each subsection first shows that the operation
  is the expected one when that does not happen, then evaluates it on an input where
  it does.
\<close>

text \<open>
  A quaternion whose \<open>w\<close> is 0 cannot come out of the constructor, but the fields are
  public and the instance methods assign them directly: \<open>new Quaternion(1, 0, 0, 1)\<close>
  after \<open>Subtract(Quaternion.identity)\<close> is \<open>(1, 0, 0, 0)\<close>.
\<close>

lemma w_zero_reachable:
  "Subtract_method (new_Quaternion 1 0 0 1) identity = \<lparr>x = 1, y = 0, z = 0, w = 0\<rparr>"
  by (simp add: Subtract_method_def identity_def new_Quaternion_fields Let_def)

subsection \<open>Multiplication by the identity\<close>

lemma Multiply_identity_nonzero_w:
  "w q \<noteq> 0 \<Longrightarrow> Multiply q identity = q \<and> Multiply identity q = q"
  by (simp add: Multiply_def identity_def new_Quaternion_fields)

text \<open>The instance method, which assigns the fields directly, keeps every receiver.\<close>

lemma Multiply_method_identity: "Multiply_method q identity = q"
  by (simp add: Multiply_method_def identity_def new_Quaternion_fields Let_def)

text \<open>
  Claim C3 says that \<open>Multiply(q, identity)\<close> and \<open>Multiply(identity, q)\<close> are \<open>q\<close> for
  every unit \<open>q\<close>. The unit quaternion \<open>(1, 0, 0, 0)\<close>, a half turn about the x axis,
  gives \<open>(1, 0, 0, 1)\<close> on both sides.
\<close>

theorem Multiply_identity_w_zero:
  "magnitude \<lparr>x = 1, y = 0, z = 0, w = 0\<rparr> = 1
   \<and> Multiply \<lparr>x = 1, y = 0, z = 0, w = 0\<rparr> identity = \<lparr>x = 1, y = 0, z = 0, w = 1\<rparr>
   \<and> Multiply identity \<lparr>x = 1, y = 0, z = 0, w = 0\<rparr> = \<lparr>x = 1, y = 0, z = 0, w = 1\<rparr>"
  by (simp add: magnitude_def Dot_def Multiply_def identity_def new_Quaternion_fields)

subsection \<open>Normalisation\<close>

lemma normalized_zero_magnitude:
  "magnitude q = 0 \<Longrightarrow> normalized q = \<lparr>x = 0, y = 0, z = 0, w = 1\<rparr>"
  by (simp add: normalized_def identity_def new_Quaternion_fields)

text \<open>
  Claim C5 says that \<open>normalized\<close> divides every component by the magnitude when that
  is positive, and is the identity when it is zero. The second half is
  \<open>normalized_zero_magnitude\<close> and the first holds when \<open>w\<close> is not zero
  (\<open>normalized_fields\<close>). On \<open>(1, 0, 0, 0)\<close>, of magnitude 1, the division gives
  \<open>(1, 0, 0, 0)\<close> but \<open>normalized\<close> returns \<open>(1, 0, 0, 1)\<close>, whose magnitude is \<open>sqrt 2\<close>.
\<close>

theorem normalized_w_zero:
  "0 < magnitude \<lparr>x = 1, y = 0, z = 0, w = 0\<rparr>
   \<and> normalized \<lparr>x = 1, y = 0, z = 0, w = 0\<rparr> = \<lparr>x = 1, y = 0, z = 0, w = 1\<rparr>
   \<and> magnitude (normalized \<lparr>x = 1, y = 0, z = 0, w = 0\<rparr>) = sqrt 2"
  by (simp add: normalized_def magnitude_def Dot_def new_Quaternion_fields)

subsection \<open>Conjugate and inverse\<close>

lemma conjugate_inverse_nonzero_w:
  assumes "w q \<noteq> 0"
  shows "conjugate q = \<lparr>x = - x q, y = - y q, z = - z q, w = w q\<rparr>"
    and "inverse_q q = Some \<lparr>x = - x q / (magnitude q)\<^sup>2, y = - y q / (magnitude q)\<^sup>2,
                               z = - z q / (magnitude q)\<^sup>2, w = w q / (magnitude q)\<^sup>2\<rparr>"
proof -
  show c: "conjugate q = \<lparr>x = - x q, y = - y q, z = - z q, w = w q\<rparr>"
    using assms by (simp add: conjugate_def new_Quaternion_fields)
  have "(magnitude q)\<^sup>2 \<noteq> 0"
    using Dot_self_pos_w [OF assms] by (simp add: magnitude_sq)
  then show "inverse_q q = Some \<lparr>x = - x q / (magnitude q)\<^sup>2, y = - y q / (magnitude q)\<^sup>2,
                               z = - z q / (magnitude q)\<^sup>2, w = w q / (magnitude q)\<^sup>2\<rparr>"
    using assms by (simp add: inverse_q_def c new_Quaternion_fields Let_def)
qed

text \<open>
  Claim C7 says that for every \<open>q\<close> of nonzero magnitude \<open>conjugate\<close> is
  \<open>(-x, -y, -z, w)\<close> and \<open>inverse\<close> is that conjugate divided by the squared magnitude.
  On \<open>(1, 0, 0, 0)\<close> both should be \<open>(-1, 0, 0, 0)\<close>; both are \<open>(-1, 0, 0, 1)\<close>.
\<close>

theorem conjugate_inverse_w_zero:
  "magnitude \<lparr>x = 1, y = 0, z = 0, w = 0\<rparr> \<noteq> 0
   \<and> conjugate \<lparr>x = 1, y = 0, z = 0, w = 0\<rparr> = \<lparr>x = - 1, y = 0, z = 0, w = 1\<rparr>
   \<and> inverse_q \<lparr>x = 1, y = 0, z = 0, w = 0\<rparr> = Some \<lparr>x = - 1, y = 0, z = 0, w = 1\<rparr>"
  by (simp add: conjugate_def inverse_q_def magnitude_def Dot_def new_Quaternion_fields Let_def)

section \<open>Instance methods against the static operations\<close>

lemma Add_method_eq_Add:
  "w this + w other \<noteq> 0 \<Longrightarrow> Add_method this other = Add this other"
  by (simp add: Add_method_def Add_def new_Quaternion_fields Let_def)

lemma Subtract_method_eq_Subtract:
  "w this - w other \<noteq> 0 \<Longrightarrow> Subtract_method this other = Subtract this other"
  by (simp add: Subtract_method_def Subtract_def new_Quaternion_fields Let_def)

text \<open>
  The first assignment of the instance \<open>Multiply\<close> is the static formula; the later ones
  read fields that were already overwritten.
\<close>

lemma Multiply_method_x: "x (Multiply_method this other) = x (Multiply this other)"
  by (simp add: Multiply_method_def Multiply_def new_Quaternion_fields Let_def)

text \<open>
  Claim C6 says that after \<open>q.Multiply(other)\<close> the receiver is the static
  \<open>Multiply(q_old, other)\<close>. With \<open>q = (1, 2, 3, 4)\<close> and \<open>other = (5, 6, 7, 8)\<close> the
  receiver ends as \<open>(24, -113, 761, -4737)\<close> and the static product is
  \<open>(24, 48, 48, -6)\<close>.
\<close>

theorem Multiply_method_differs:
  "Multiply_method \<lparr>x = 1, y = 2, z = 3, w = 4\<rparr> \<lparr>x = 5, y = 6, z = 7, w = 8\<rparr>
     = \<lparr>x = 24, y = - 113, z = 761, w = - 4737\<rparr>
   \<and> Multiply \<lparr>x = 1, y = 2, z = 3, w = 4\<rparr> \<lparr>x = 5, y = 6, z = 7, w = 8\<rparr>
     = \<lparr>x = 24, y = 48, z = 48, w = - 6\<rparr>"
  by (simp add: Multiply_method_def Multiply_def new_Quaternion_fields Let_def)

section \<open>Spherical interpolation\<close>

subsection \<open>The algorithm of the specification keeps unit length\<close>

lemma magnitude_zero_fields:
  assumes "magnitude q = 0"
  shows "x q = 0 \<and> y q = 0 \<and> z q = 0 \<and> w q = 0"
proof -
  have "(x q)\<^sup>2 + (y q)\<^sup>2 + (z q)\<^sup>2 + (w q)\<^sup>2 = 0"
    using assms by (simp add: magnitude_def Dot_def power2_eq_square)
  then show ?thesis
    by (simp add: add_nonneg_eq_0_iff)
qed

lemma magnitude_pos_w: "w q \<noteq> 0 \<Longrightarrow> 0 < magnitude q"
  by (simp add: magnitude_def Dot_self_pos_w)

lemma magnitude_nonneg: "0 \<le> magnitude q"
  by (simp add: magnitude_def Dot_self_nonneg)

lemma normalized_spec_unit: "magnitude (normalized_spec q) = 1"
proof (cases "0 < magnitude q")
  case True
  define m where "m = magnitude q"
  have "Dot (normalized_spec q) (normalized_spec q) = Dot q q / m\<^sup>2"
    using True by (simp add: normalized_spec_def Dot_def m_def power2_eq_square add_divide_distrib)
  also have "\<dots> = 1"
    using True by (simp add: m_def magnitude_sq [symmetric])
  finally show ?thesis by (simp add: magnitude_unit_iff)
next
  case False
  then show ?thesis
    by (simp add: normalized_spec_def magnitude_def Dot_def)
qed

text \<open>Away from a zero last component the code's \<open>normalized\<close> is the specification's.\<close>

lemma normalized_eq_spec:
  assumes "w q \<noteq> 0"
  shows "normalized q = normalized_spec q"
  using assms magnitude_pos_w [OF assms]
  by (simp add: normalized_spec_def normalized_fields)

lemma DoSlerp_spec_flip:
  assumes "Dot a b < 0"
  shows "DoSlerp_spec a b t = DoSlerp_spec a \<lparr>x = - x b, y = - y b, z = - z b, w = - w b\<rparr> t"
proof -
  have "Dot a \<lparr>x = - x b, y = - y b, z = - z b, w = - w b\<rparr> = - Dot a b"
    by (simp add: Dot_def)
  then show ?thesis
    using assms by (simp add: DoSlerp_spec_def Let_def)
qed

lemma DoSlerp_spec_unit_noflip:
  assumes a: "Dot a a = 1" and c: "Dot c c = 1" and d0: "0 \<le> Dot a c"
  shows "magnitude (DoSlerp_spec a c t) = 1"
proof (cases "0.9995 < Dot a c")
  case True
  then show ?thesis
    using d0 by (simp add: DoSlerp_spec_def Let_def normalized_spec_unit)
next
  case False
  define d where "d = Dot a c"
  have d: "0 \<le> d" "d < 1"
    using False d0 by (simp_all add: d_def)
  define v where "v = \<lparr>x = x c - x a * d, y = y c - y a * d, z = z c - z a * d, w = w c - w a * d\<rparr>"
  have "Dot v v = Dot c c - 2 * d * Dot a c + d\<^sup>2 * Dot a a"
    by (simp add: Dot_def v_def power2_eq_square algebra_simps)
  then have vv: "Dot v v = 1 - d\<^sup>2"
    by (simp add: a c d_def power2_eq_square)
  have "d\<^sup>2 < 1\<^sup>2"
    using d by (intro power_strict_mono) simp_all
  then have pos: "0 < 1 - d\<^sup>2" by simp
  then have mv: "0 < magnitude v"
    by (simp add: magnitude_def vv)
  define u where "u = normalized_spec v"
  have oo: "Dot u u = 1"
    using normalized_spec_unit [of v] by (simp add: u_def magnitude_unit_iff)
  have "Dot a v = Dot a c - d * Dot a a"
    by (simp add: Dot_def v_def algebra_simps)
  then have av: "Dot a v = 0"
    by (simp add: a d_def)
  have "Dot a u = Dot a v / magnitude v"
    using mv by (simp add: u_def normalized_spec_def Dot_def add_divide_distrib)
  then have ao: "Dot a u = 0"
    by (simp add: av)
  define th where "th = arccos d * t"
  define r where "r = \<lparr>x = x a * cos th + x u * sin th, y = y a * cos th + y u * sin th,
                       z = z a * cos th + z u * sin th, w = w a * cos th + w u * sin th\<rparr>"
  have "Dot r r = (cos th)\<^sup>2 * Dot a a + 2 * (cos th * sin th) * Dot a u + (sin th)\<^sup>2 * Dot u u"
    by (simp add: Dot_def r_def power2_eq_square algebra_simps)
  then have "Dot r r = 1"
    by (simp add: a ao oo)
  moreover have "DoSlerp_spec a c t = r"
    using False d0
    by (simp add: DoSlerp_spec_def Let_def d_def [symmetric] v_def [symmetric] u_def [symmetric]
          th_def [symmetric] r_def)
  ultimately show ?thesis
    by (simp add: magnitude_unit_iff)
qed

lemma DoSlerp_spec_unit:
  assumes "magnitude a = 1" and "magnitude b = 1"
  shows "magnitude (DoSlerp_spec a b t) = 1"
proof (cases "Dot a b < 0")
  case True
  define c where "c = \<lparr>x = - x b, y = - y b, z = - z b, w = - w b\<rparr>"
  have "Dot a c = - Dot a b" "Dot c c = Dot b b"
    by (simp_all add: Dot_def c_def)
  then have "magnitude (DoSlerp_spec a c t) = 1"
    using assms True by (intro DoSlerp_spec_unit_noflip) (simp_all add: magnitude_unit_iff)
  then show ?thesis
    using True by (simp add: DoSlerp_spec_flip c_def)
next
  case False
  then show ?thesis
    using assms by (intro DoSlerp_spec_unit_noflip) (simp_all add: magnitude_unit_iff)
qed

lemma DoSlerp_flip:
  assumes "Dot a b < 0" and "w b \<noteq> 0"
  shows "DoSlerp a b t = DoSlerp a \<lparr>x = - x b, y = - y b, z = - z b, w = - w b\<rparr> t"
proof -
  have "Dot a \<lparr>x = - x b, y = - y b, z = - z b, w = - w b\<rparr> = - Dot a b"
    by (simp add: Dot_def)
  then show ?thesis
    using assms by (simp add: DoSlerp_def new_Quaternion_fields Let_def)
qed

lemma DoSlerp_eq_spec_noflip:
  assumes d0: "0 \<le> Dot a c"
    and h: "Dot a c \<le> DOT_THRESHOLD \<Longrightarrow> w c \<noteq> w a * Dot a c"
    and wr: "w (DoSlerp_spec a c t) \<noteq> 0"
  shows "DoSlerp a c t = Some (DoSlerp_spec a c t)"
proof (cases "DOT_THRESHOLD < Dot a c")
  case True
  define l where "l = \<lparr>x = x a + t * (x c - x a), y = y a + t * (y c - y a),
                       z = z a + t * (z c - z a), w = w a + t * (w c - w a)\<rparr>"
  have spec: "DoSlerp_spec a c t = normalized_spec l"
    using True d0 by (simp add: DoSlerp_spec_def DOT_THRESHOLD_def Let_def l_def)
  have code: "DoSlerp a c t = Some (normalized (new_Quaternion (x l) (y l) (z l) (w l)))"
    using True d0 by (simp add: DoSlerp_def Let_def l_def)
  show ?thesis
  proof (cases "w l = 0")
    case False
    then have "new_Quaternion (x l) (y l) (z l) (w l) = l"
      by (simp add: new_Quaternion_fields)
    then show ?thesis
      using False by (simp add: code spec normalized_eq_spec)
  next
    case wl: True
    have "\<not> 0 < magnitude l"
    proof
      assume "0 < magnitude l"
      then have "w (normalized_spec l) = 0"
        by (simp add: normalized_spec_def wl)
      then show False using wr by (simp add: spec)
    qed
    then have m0: "magnitude l = 0"
      using magnitude_nonneg [of l] by simp
    then have "new_Quaternion (x l) (y l) (z l) (w l) = \<lparr>x = 0, y = 0, z = 0, w = 1\<rparr>"
      using magnitude_zero_fields [of l] by (simp add: new_Quaternion_fields)
    moreover have "normalized \<lparr>x = 0, y = 0, z = 0, w = 1\<rparr> = \<lparr>x = 0, y = 0, z = 0, w = 1\<rparr>"
      by (simp add: normalized_def magnitude_def Dot_def new_Quaternion_fields)
    ultimately show ?thesis
      using m0 by (simp add: code spec normalized_spec_def)
  qed
next
  case False
  define d where "d = Dot a c"
  have d: "0 \<le> d" "d \<le> DOT_THRESHOLD" "w c - w a * d \<noteq> 0"
    using False d0 h by (simp_all add: d_def)
  have d1: "d \<le> 1" "\<not> 0.9995 < d"
    using d(2) by (simp_all add: DOT_THRESHOLD_def)
  define v where "v = \<lparr>x = x c - x a * d, y = y c - y a * d, z = z c - z a * d, w = w c - w a * d\<rparr>"
  have nv: "new_Quaternion (x c - x a * d) (y c - y a * d) (z c - z a * d) (w c - w a * d) = v"
    using d(3) by (simp add: new_Quaternion_fields v_def)
  have wv: "w v \<noteq> 0"
    using d(3) by (simp add: v_def)
  define u where "u = normalized_spec v"
  have nu: "normalized v = u"
    using wv by (simp add: u_def normalized_eq_spec)
  define th where "th = arccos d * t"
  define r where "r = \<lparr>x = x a * cos th + x u * sin th, y = y a * cos th + y u * sin th,
                       z = z a * cos th + z u * sin th, w = w a * cos th + w u * sin th\<rparr>"
  have spec: "DoSlerp_spec a c t = r"
    using d(1) d1(2)
    by (simp add: DoSlerp_spec_def Let_def d_def [symmetric] v_def [symmetric] u_def [symmetric]
          th_def [symmetric] r_def)
  have acos: "Math_acos d = Some (arccos d)"
    using d(1) d1(1) by (simp add: Math_acos_def)
  have "DoSlerp a c t = Some (new_Quaternion (x r) (y r) (z r) (w r))"
    using False d(1)
    by (simp add: DoSlerp_def Let_def d_def [symmetric] nv nu acos th_def [symmetric] r_def)
  moreover have "new_Quaternion (x r) (y r) (z r) (w r) = r"
    using wr by (simp add: spec new_Quaternion_fields)
  ultimately show ?thesis
    by (simp add: spec)
qed

lemma DoSlerp_eq_spec:
  assumes wb: "Dot a b < 0 \<Longrightarrow> w b \<noteq> 0"
    and h: "\<bar>Dot a b\<bar> \<le> DOT_THRESHOLD \<Longrightarrow> w b \<noteq> w a * Dot a b"
    and wr: "w (DoSlerp_spec a b t) \<noteq> 0"
  shows "DoSlerp a b t = Some (DoSlerp_spec a b t)"
proof (cases "Dot a b < 0")
  case True
  define c where "c = \<lparr>x = - x b, y = - y b, z = - z b, w = - w b\<rparr>"
  have dc: "Dot a c = - Dot a b" by (simp add: Dot_def c_def)
  have wc: "w c = - w b" by (simp add: c_def)
  have sp: "DoSlerp_spec a b t = DoSlerp_spec a c t"
    using True by (simp add: DoSlerp_spec_flip c_def)
  have "DoSlerp a c t = Some (DoSlerp_spec a c t)"
  proof (rule DoSlerp_eq_spec_noflip)
    show "0 \<le> Dot a c" using True by (simp add: dc)
    show "w c \<noteq> w a * Dot a c" if "Dot a c \<le> DOT_THRESHOLD"
      using that h True by (simp add: dc wc)
    show "w (DoSlerp_spec a c t) \<noteq> 0" using wr by (simp add: sp)
  qed
  then show ?thesis
    using True wb by (simp add: DoSlerp_flip sp c_def)
next
  case False
  show ?thesis
  proof (rule DoSlerp_eq_spec_noflip)
    show "0 \<le> Dot a b" using False by simp
    show "w b \<noteq> w a * Dot a b" if "Dot a b \<le> DOT_THRESHOLD"
      using that h False by simp
    show "w (DoSlerp_spec a b t) \<noteq> 0" by (rule wr)
  qed
qed

text \<open>
  So for unit \<open>from\<close> and \<open>to\<close> and any \<open>t\<close> the code returns a unit quaternion whenever
  none of the last components it passes to the constructor is zero.
\<close>

lemma DoSlerp_unit_nonzero_w:
  assumes "magnitude a = 1" and "magnitude b = 1"
    and "Dot a b < 0 \<Longrightarrow> w b \<noteq> 0"
    and "\<bar>Dot a b\<bar> \<le> DOT_THRESHOLD \<Longrightarrow> w b \<noteq> w a * Dot a b"
    and "w (DoSlerp_spec a b t) \<noteq> 0"
  shows "\<exists>r. DoSlerp a b t = Some r \<and> magnitude r = 1"
  using DoSlerp_eq_spec [OF assms(3,4,5)] DoSlerp_spec_unit [OF assms(1,2)] by simp

subsection \<open>Interpolating from the identity\<close>

lemma sqrt_34_25: "sqrt (34 / 25) = sqrt 34 / 5"
proof -
  have "sqrt 25 = 5" by (rule real_sqrt_unique) simp_all
  then show ?thesis by (simp add: real_sqrt_divide)
qed

lemma sin_arccos_4_5: "sin (arccos (4 / 5)) = 3 / 5"
proof -
  have "sin (arccos (4 / 5)) = sqrt (1 - (4 / 5)\<^sup>2)"
    by (rule sin_arccos) simp_all
  also have "1 - (4 / 5 :: real)\<^sup>2 = (3 / 5)\<^sup>2"
    by (simp add: power2_eq_square)
  also have "sqrt ((3 / 5)\<^sup>2) = 3 / 5"
    by (simp del: power_divide)
  finally show ?thesis .
qed

text \<open>
  Claim C1 says that \<open>DoSlerp\<close> is exactly the specified algorithm and that for unit
  \<open>from\<close>, \<open>to\<close> and \<open>t\<close> in [0, 1] its result is a unit quaternion. Take
  \<open>from = identity\<close>, \<open>to = (3/5, 0, 0, 4/5)\<close> and \<open>t = 1\<close>: both are unit, the dot
  product is 4/5, and \<open>to - from*dot\<close> is \<open>(3/5, 0, 0, 0)\<close>, which the constructor turns
  into \<open>(3/5, 0, 0, 1)\<close>. The specified algorithm returns \<open>to\<close>; the code returns
  \<open>(9 / (5 * sqrt 34), 0, 0, 4/5 + 3 / sqrt 34)\<close>, of magnitude greater than 1.
\<close>

theorem DoSlerp_from_identity_not_unit:
  "magnitude identity = 1 \<and> magnitude \<lparr>x = 3 / 5, y = 0, z = 0, w = 4 / 5\<rparr> = 1
  \<and> DoSlerp_spec identity \<lparr>x = 3 / 5, y = 0, z = 0, w = 4 / 5\<rparr> 1
      = \<lparr>x = 3 / 5, y = 0, z = 0, w = 4 / 5\<rparr>
  \<and> DoSlerp identity \<lparr>x = 3 / 5, y = 0, z = 0, w = 4 / 5\<rparr> 1
      = Some \<lparr>x = 9 / (5 * sqrt 34), y = 0, z = 0, w = 4 / 5 + 3 / sqrt 34\<rparr>
  \<and> 1 < magnitude \<lparr>x = 9 / (5 * sqrt 34), y = 0, z = 0, w = 4 / 5 + 3 / sqrt 34\<rparr>"
proof (intro conjI)
  show "magnitude identity = 1"
    by (simp add: magnitude_def Dot_def identity_def new_Quaternion_fields)
  show "magnitude \<lparr>x = 3 / 5, y = 0, z = 0, w = 4 / 5\<rparr> = 1"
    by (simp add: magnitude_unit_iff Dot_def)
  have s: "sqrt (9 / 25) = 3 / 5"
    by (rule real_sqrt_unique) (simp_all add: power2_eq_square)
  show "DoSlerp_spec identity \<lparr>x = 3 / 5, y = 0, z = 0, w = 4 / 5\<rparr> 1
      = \<lparr>x = 3 / 5, y = 0, z = 0, w = 4 / 5\<rparr>"
    by (simp add: DoSlerp_spec_def identity_def new_Quaternion_fields Dot_def Let_def
          normalized_spec_def magnitude_def sin_arccos_4_5 s)
  have pos: "0 < 4 / 5 + 3 / sqrt 34"
    by (simp add: add_pos_pos)
  then have nz: "4 / 5 + 3 / sqrt 34 \<noteq> 0" by simp
  show "DoSlerp identity \<lparr>x = 3 / 5, y = 0, z = 0, w = 4 / 5\<rparr> 1
      = Some \<lparr>x = 9 / (5 * sqrt 34), y = 0, z = 0, w = 4 / 5 + 3 / sqrt 34\<rparr>"
    using nz
    by (simp add: DoSlerp_def identity_def new_Quaternion_fields Dot_def DOT_THRESHOLD_def
          Math_acos_def Let_def normalized_def magnitude_def sin_arccos_4_5 sqrt_34_25)
  have "sqrt 34 < 15" by (rule real_less_lsqrt) simp_all
  then have "1 / 5 < 3 / sqrt 34"
    by (simp add: field_simps)
  then have w1: "1 < 4 / 5 + 3 / sqrt 34" by linarith
  have "1 < (4 / 5 + 3 / sqrt 34) * (4 / 5 + 3 / sqrt 34)"
    using w1 by (simp add: less_1_mult)
  moreover have "0 \<le> (9 / (5 * sqrt 34)) * (9 / (5 * sqrt 34))" by simp
  ultimately have "1 < Dot \<lparr>x = 9 / (5 * sqrt 34), y = 0, z = 0, w = 4 / 5 + 3 / sqrt 34\<rparr>
                         \<lparr>x = 9 / (5 * sqrt 34), y = 0, z = 0, w = 4 / 5 + 3 / sqrt 34\<rparr>"
    unfolding Dot_def by simp
  then show "1 < magnitude \<lparr>x = 9 / (5 * sqrt 34), y = 0, z = 0, w = 4 / 5 + 3 / sqrt 34\<rparr>"
    by (simp add: magnitude_def)
qed

subsection \<open>The end points\<close>

lemma DoSlerp_zero:
  assumes "magnitude a = 1" and "w a \<noteq> 0"
  shows "DoSlerp a b 0 = Some a"
proof -
  have n: "normalized a = a"
    using assms by (rule normalized_unit)
  have k: "new_Quaternion (x a) (y a) (z a) (w a) = a"
    using assms(2) by (simp add: new_Quaternion_fields)
  show ?thesis
    by (simp add: DoSlerp_def Let_def Math_acos_def DOT_THRESHOLD_def k n split: prod.splits)
qed

lemma DoSlerp_one_noflip:
  assumes a: "Dot a a = 1" and c: "Dot c c = 1" and d0: "0 \<le> Dot a c" and wc: "w c \<noteq> 0"
    and h: "DOT_THRESHOLD < Dot a c \<or> w c \<noteq> w a * Dot a c"
  shows "DoSlerp a c 1 = Some c"
proof (cases "DOT_THRESHOLD < Dot a c")
  case True
  have n: "normalized c = c"
    using c wc by (simp add: normalized_unit magnitude_unit_iff)
  have k: "new_Quaternion (x c) (y c) (z c) (w c) = c"
    using wc by (simp add: new_Quaternion_fields)
  show ?thesis
    using True d0 by (simp add: DoSlerp_def Let_def k n)
next
  case False
  define d where "d = Dot a c"
  have d: "0 \<le> d" "d \<le> DOT_THRESHOLD" "w c - w a * d \<noteq> 0"
    using False d0 h by (simp_all add: d_def)
  have d1: "d < 1"
    using d(2) by (simp add: DOT_THRESHOLD_def)
  define v where "v = \<lparr>x = x c - x a * d, y = y c - y a * d, z = z c - z a * d, w = w c - w a * d\<rparr>"
  have nv: "new_Quaternion (x c - x a * d) (y c - y a * d) (z c - z a * d) (w c - w a * d) = v"
    using d(3) by (simp add: new_Quaternion_fields v_def)
  have "Dot v v = Dot c c - 2 * d * Dot a c + d\<^sup>2 * Dot a a"
    by (simp add: Dot_def v_def power2_eq_square algebra_simps)
  then have vv: "Dot v v = 1 - d\<^sup>2"
    by (simp add: a c d_def power2_eq_square)
  have "d\<^sup>2 < 1\<^sup>2"
    using d(1) d1 by (intro power_strict_mono) simp_all
  then have pos: "0 < 1 - d\<^sup>2" by simp
  define m where "m = sqrt (1 - d\<^sup>2)"
  have m: "magnitude v = m" "0 < m"
    using pos by (simp_all add: magnitude_def vv m_def)
  have wv: "w v \<noteq> 0"
    using d(3) by (simp add: v_def)
  have norm: "normalized v = \<lparr>x = x v / m, y = y v / m, z = z v / m, w = w v / m\<rparr>"
    using normalized_fields [of v] m wv by simp
  have acos: "Math_acos d = Some (arccos d)"
    using d(1) d1 by (simp add: Math_acos_def)
  have cs: "cos (arccos d) = d" "sin (arccos d) = m"
    using d(1) d1 by (simp_all add: m_def sin_arccos)
  have k: "new_Quaternion (x c) (y c) (z c) (w c) = c"
    using wc by (simp add: new_Quaternion_fields)
  have "DoSlerp a c 1 = Some (new_Quaternion
          (x a * d + x v / m * m) (y a * d + y v / m * m)
          (z a * d + z v / m * m) (w a * d + w v / m * m))"
    using False d(1)
    by (simp add: DoSlerp_def Let_def d_def [symmetric] nv acos cs norm)
  also have "\<dots> = Some (new_Quaternion (x c) (y c) (z c) (w c))"
    using m(2) by (simp add: v_def)
  finally show ?thesis by (simp add: k)
qed

text \<open>
  Claim C2 says that \<open>Slerp(a, b, 0)\<close> is \<open>a\<close> and \<open>Slerp(a, b, 1)\<close> is \<open>b\<close> for every
  pair of quaternions. With \<open>a = (0, 0, 0, 1)\<close> and \<open>b = (0, 0, 0, -1)\<close>, both unit, the
  dot product is negative, \<open>to\<close> is replaced by its opposite, and \<open>Slerp(a, b, 1)\<close> is
  \<open>(0, 0, 0, 1)\<close>, not \<open>b\<close>.
\<close>

theorem Slerp_end_sign_counterexample:
  "Slerp \<lparr>x = 0, y = 0, z = 0, w = 1\<rparr> \<lparr>x = 0, y = 0, z = 0, w = - 1\<rparr> 1
     = Some \<lparr>x = 0, y = 0, z = 0, w = 1\<rparr>
   \<and> Slerp \<lparr>x = 0, y = 0, z = 0, w = 1\<rparr> \<lparr>x = 0, y = 0, z = 0, w = - 1\<rparr> 1
     \<noteq> Some \<lparr>x = 0, y = 0, z = 0, w = - 1\<rparr>"
  by (simp add: Slerp_def DoSlerp_def Dot_def new_Quaternion_fields DOT_THRESHOLD_def Let_def
        normalized_def magnitude_def)

text \<open>
  In the near-parallel branch the result is normalised, so a start value that is not
  unit is not returned at \<open>t = 0\<close> either.
\<close>

lemma Slerp_start_not_unit:
  "Slerp \<lparr>x = 0, y = 0, z = 0, w = 2\<rparr> \<lparr>x = 0, y = 0, z = 0, w = 2\<rparr> 0
     = Some \<lparr>x = 0, y = 0, z = 0, w = 1\<rparr>"
  by (simp add: Slerp_def DoSlerp_def Dot_def new_Quaternion_fields DOT_THRESHOLD_def Let_def
        normalized_def magnitude_def)

text \<open>
  Claim C2, amended. For a unit \<open>a\<close> with \<open>w \<noteq> 0\<close> and any \<open>b\<close>, \<open>Slerp(a, b, 0)\<close> is
  \<open>a\<close>. For unit \<open>a\<close> and \<open>b\<close> with \<open>b.w \<noteq> 0\<close>, and with \<open>|Dot(a, b)| > 0.9995\<close> or
  \<open>b.w \<noteq> a.w * Dot(a, b)\<close>, \<open>Slerp(a, b, 1)\<close> is \<open>b\<close> when \<open>Dot(a, b) \<ge> 0\<close> and the
  opposite quaternion \<open>-b\<close>, the same rotation, when \<open>Dot(a, b) < 0\<close>.
\<close>

theorem Slerp_endpoints:
  "(magnitude a = 1 \<and> w a \<noteq> 0 \<longrightarrow> Slerp a b 0 = Some a)
   \<and> (magnitude a = 1 \<and> magnitude b = 1 \<and> w b \<noteq> 0
        \<and> (DOT_THRESHOLD < \<bar>Dot a b\<bar> \<or> w b \<noteq> w a * Dot a b)
      \<longrightarrow> Slerp a b 1 = Some (if Dot a b < 0
                                then \<lparr>x = - x b, y = - y b, z = - z b, w = - w b\<rparr>
                                else b))"
proof (intro conjI impI)
  assume "magnitude a = 1 \<and> w a \<noteq> 0"
  then show "Slerp a b 0 = Some a"
    by (simp add: Slerp_def DoSlerp_zero)
next
  assume h: "magnitude a = 1 \<and> magnitude b = 1 \<and> w b \<noteq> 0
        \<and> (DOT_THRESHOLD < \<bar>Dot a b\<bar> \<or> w b \<noteq> w a * Dot a b)"
  then have a: "Dot a a = 1" and b: "Dot b b = 1" and wb: "w b \<noteq> 0"
    by (simp_all add: magnitude_unit_iff)
  show "Slerp a b 1 = Some (if Dot a b < 0
                                then \<lparr>x = - x b, y = - y b, z = - z b, w = - w b\<rparr>
                                else b)"
  proof (cases "Dot a b < 0")
    case True
    define c where "c = \<lparr>x = - x b, y = - y b, z = - z b, w = - w b\<rparr>"
    have dc: "Dot a c = - Dot a b" by (simp add: Dot_def c_def)
    have wc: "w c = - w b" by (simp add: c_def)
    have "DoSlerp a c 1 = Some c"
    proof (rule DoSlerp_one_noflip)
      show "Dot a a = 1" by (rule a)
      show "Dot c c = 1" using b by (simp add: Dot_def c_def)
      show "0 \<le> Dot a c" using True dc by simp
      show "w c \<noteq> 0" using wb by (simp add: wc)
      show "DOT_THRESHOLD < Dot a c \<or> w c \<noteq> w a * Dot a c"
        using h True by (auto simp add: dc wc)
    qed
    then show ?thesis
      using True wb by (simp add: Slerp_def DoSlerp_flip c_def)
  next
    case False
    have "DoSlerp a b 1 = Some b"
      using a b _ wb
    proof (rule DoSlerp_one_noflip)
      show "0 \<le> Dot a b" using False by simp
      show "DOT_THRESHOLD < Dot a b \<or> w b \<noteq> w a * Dot a b"
        using h False by auto
    qed
    then show ?thesis
      using False by (simp add: Slerp_def)
  qed
qed

theorem Slerp_endpoints_witness:
  "magnitude \<lparr>x = 3 / 5, y = 0, z = 0, w = 4 / 5\<rparr> = 1
   \<and> magnitude \<lparr>x = 4 / 5, y = 0, z = 0, w = 3 / 5\<rparr> = 1
   \<and> Dot \<lparr>x = 3 / 5, y = 0, z = 0, w = 4 / 5\<rparr> \<lparr>x = 4 / 5, y = 0, z = 0, w = 3 / 5\<rparr> = 24 / 25
   \<and> Slerp \<lparr>x = 3 / 5, y = 0, z = 0, w = 4 / 5\<rparr> \<lparr>x = 4 / 5, y = 0, z = 0, w = 3 / 5\<rparr> 0
       = Some \<lparr>x = 3 / 5, y = 0, z = 0, w = 4 / 5\<rparr>
   \<and> Slerp \<lparr>x = 3 / 5, y = 0, z = 0, w = 4 / 5\<rparr> \<lparr>x = 4 / 5, y = 0, z = 0, w = 3 / 5\<rparr> 1
       = Some \<lparr>x = 4 / 5, y = 0, z = 0, w = 3 / 5\<rparr>"
  using Slerp_endpoints [of "\<lparr>x = 3 / 5, y = 0, z = 0, w = 4 / 5\<rparr>" "\<lparr>x = 4 / 5, y = 0, z = 0, w = 3 / 5\<rparr>"]
  by (simp add: magnitude_unit_iff Dot_def)

end
